theory Spec2Isabelle
  imports Main
begin

section \<open>The host scene\<close>

text \<open>
  \<^verbatim>\<open>yeti_utils.py\<close> is a Python 2 script for Maya: it reads the scene through
  \<^verbatim>\<open>maya.cmds\<close> and drives the Yeti plugin through command strings handed to
  \<^verbatim>\<open>mel.eval\<close>. The functions of the script are translated one by one below. The host
  is not part of the repository; it is represented by a record of what the script can
  observe of it, and each host command the script calls by a small function on that record.

  Python exceptions the script can raise by itself: subscripting or iterating an absent
  result (\<^verbatim>\<open>None\<close>) is a \<^verbatim>\<open>TypeError\<close>, subscripting an empty list
  an \<^verbatim>\<open>IndexError\<close>, a missing dictionary key a \<^verbatim>\<open>KeyError\<close>.
\<close>

datatype error = TypeError | IndexError | KeyError

text \<open>A value of a graph parameter, as \<^verbatim>\<open>mel.eval\<close> hands it back: a number or a string.
  Python's \<^verbatim>\<open>==\<close> between a number and a string is false, as the constructors are distinct.\<close>

datatype pval = Num int | Str string

text \<open>The graph-changing plugin commands the script issues, in the order it issues them.
  \<open>Create\<close> also records the node name the plugin answered with.\<close>

datatype call =
    Create string string string
  | Disconnect string nat string
  | Rename string string string
  | SetParam string string string string pval
  | Connect string string string nat
  | AddGuideSet string string

text \<open>The graph of one plugin instance, as far as the script can query it: the nodes with
  their types in listing order, and the parameter values of each node.\<close>

record graph =
  nodes :: "(string \<times> string) list"
  params :: "string \<Rightarrow> string \<Rightarrow> pval"

text \<open>
  The scene. \<open>shapes\<close> and \<open>parent\<close> answer \<^verbatim>\<open>cmds.listRelatives\<close>,
  \<open>objectSet\<close> and \<open>pgYetiMaya\<close> answer \<^verbatim>\<open>cmds.listConnections\<close> for that type;
  all four may answer with no list at all. \<open>nodeName\<close> is the name the plugin gives to a
  new node of a type, given the nodes already in the graph. \<open>calls\<close>, \<open>attrs\<close> and \<open>warnings\<close> record the graph
  commands, the \<^verbatim>\<open>cmds.setAttr\<close> calls and the \<^verbatim>\<open>cmds.warning\<close> calls made so far.
\<close>

record host =
  selection :: "string list"
  objectType :: "string \<Rightarrow> string"
  shapes :: "string \<Rightarrow> string list option"
  parent :: "string \<Rightarrow> string list option"
  nurbsCurve :: "string list"
  objectSet :: "string \<Rightarrow> string list option"
  pgYetiMaya :: "string \<Rightarrow> string list option"
  members :: "string \<Rightarrow> string set"
  windows :: "string list"
  graphs :: "string \<Rightarrow> graph"
  nodeName :: "string \<Rightarrow> (string \<times> string) list \<Rightarrow> string"
  calls :: "call list"
  attrs :: "(string \<times> int) list"
  warnings :: "string list"

text \<open>\<^verbatim>\<open>r[0]\<close> on the answer of a relationship query.\<close>

definition subscript0 :: "'a list option \<Rightarrow> error + 'a" where
  "subscript0 r =
     (case r of None \<Rightarrow> Inl TypeError | Some [] \<Rightarrow> Inl IndexError | Some (x # _) \<Rightarrow> Inr x)"

text \<open>Python truthiness of an optional string argument: \<^verbatim>\<open>None\<close> and \<^verbatim>\<open>''\<close> are false.\<close>

definition truthy :: "string option \<Rightarrow> bool" where
  "truthy s = (case s of None \<Rightarrow> False | Some v \<Rightarrow> v \<noteq> [])"

subsection \<open>Host commands\<close>

definition YETI_WIN :: string where
  "YETI_WIN = ''pgYetiGraphPanelWindow''"

definition cmds_select :: "string \<Rightarrow> host \<Rightarrow> host" where
  "cmds_select obj h = h\<lparr>selection := [obj]\<rparr>"

definition cmds_sets_add :: "string list \<Rightarrow> string \<Rightarrow> host \<Rightarrow> host" where
  "cmds_sets_add objs s h = h\<lparr>members := (members h)(s := members h s \<union> set objs)\<rparr>"

definition cmds_deleteUI :: "string \<Rightarrow> host \<Rightarrow> host" where
  "cmds_deleteUI w h = h\<lparr>windows := removeAll w (windows h)\<rparr>"

definition cmds_warning :: "string \<Rightarrow> host \<Rightarrow> host" where
  "cmds_warning msg h = h\<lparr>warnings := warnings h @ [msg]\<rparr>"

definition cmds_setAttr :: "string \<Rightarrow> int \<Rightarrow> host \<Rightarrow> host" where
  "cmds_setAttr a v h = h\<lparr>attrs := attrs h @ [(a, v)]\<rparr>"

definition pgYetiTearOffGraphPanel :: "host \<Rightarrow> host" where
  "pgYetiTearOffGraphPanel h = h\<lparr>windows := List.insert YETI_WIN (windows h)\<rparr>"

definition pgYetiAddGuideSet :: "string \<Rightarrow> string \<Rightarrow> host \<Rightarrow> host" where
  "pgYetiAddGuideSet guide_set yeti h = h\<lparr>calls := calls h @ [AddGuideSet guide_set yeti]\<rparr>"

definition pgYetiGraph_create :: "string \<Rightarrow> string \<Rightarrow> host \<Rightarrow> string \<times> host" where
  "pgYetiGraph_create type yeti h =
     (let g = graphs h yeti;
          node = nodeName h type (nodes g)
      in (node, h\<lparr>graphs := (graphs h)(yeti := g\<lparr>nodes := nodes g @ [(node, type)]\<rparr>),
                  calls := calls h @ [Create yeti type node]\<rparr>))"

definition pgYetiGraph_disconnect :: "nat \<Rightarrow> string \<Rightarrow> string \<Rightarrow> host \<Rightarrow> host" where
  "pgYetiGraph_disconnect input node yeti h =
     h\<lparr>calls := calls h @ [Disconnect yeti input node]\<rparr>"

definition pgYetiGraph_rename :: "string \<Rightarrow> string \<Rightarrow> string \<Rightarrow> host \<Rightarrow> host" where
  "pgYetiGraph_rename node name yeti h =
     (let g = graphs h yeti
      in h\<lparr>graphs := (graphs h)(yeti :=
               g\<lparr>nodes := map (\<lambda>(n, t). (if n = node then name else n, t)) (nodes g),
                 params := (params g)(name := params g node)\<rparr>),
           calls := calls h @ [Rename yeti node name]\<rparr>)"

definition pgYetiGraph_setParam ::
  "string \<Rightarrow> string \<Rightarrow> string \<Rightarrow> pval \<Rightarrow> string \<Rightarrow> host \<Rightarrow> host" where
  "pgYetiGraph_setParam node param flag val yeti h =
     (let g = graphs h yeti
      in h\<lparr>graphs := (graphs h)(yeti :=
               g\<lparr>params := (params g)(node := (params g node)(param := val))\<rparr>),
           calls := calls h @ [SetParam yeti node param flag val]\<rparr>)"

definition pgYetiGraph_connect :: "string \<Rightarrow> string \<Rightarrow> nat \<Rightarrow> string \<Rightarrow> host \<Rightarrow> host" where
  "pgYetiGraph_connect from_node to_node input yeti h =
     h\<lparr>calls := calls h @ [Connect yeti from_node to_node input]\<rparr>"

definition pgYetiGraph_listNodes :: "string \<Rightarrow> string \<Rightarrow> host \<Rightarrow> string list" where
  "pgYetiGraph_listNodes type yeti h =
     map fst (filter (\<lambda>(n, t). t = type) (nodes (graphs h yeti)))"

definition pgYetiGraph_getParamValue :: "string \<Rightarrow> string \<Rightarrow> string \<Rightarrow> host \<Rightarrow> pval" where
  "pgYetiGraph_getParamValue node param yeti h = params (graphs h yeti) node param"

section \<open>The script\<close>

subsection \<open>\<^verbatim>\<open>get_sel_grooms\<close>\<close>

text \<open>The \<^verbatim>\<open>for obj in sel\<close> loop, with the list \<open>grooms\<close> built so far.\<close>

fun get_sel_grooms_loop :: "host \<Rightarrow> string list \<Rightarrow> string list \<Rightarrow> error + string list" where
  "get_sel_grooms_loop h [] grooms = Inr grooms"
| "get_sel_grooms_loop h (obj # sel) grooms =
     (case (if objectType h obj = ''transform'' then subscript0 (shapes h obj) else Inr obj) of
        Inl e \<Rightarrow> Inl e
      | Inr shape \<Rightarrow>
          get_sel_grooms_loop h sel
            (if objectType h shape = ''pgYetiGroom'' then grooms @ [shape] else grooms))"

definition get_sel_grooms :: "host \<Rightarrow> error + string list" where
  "get_sel_grooms h = get_sel_grooms_loop h (selection h) []"

subsection \<open>\<^verbatim>\<open>groom_to_curves\<close>\<close>

text \<open>The list comprehension \<^verbatim>\<open>[cmds.listRelatives(c, parent=1)[0] for c in new_curves]\<close>.\<close>

fun new_curves_transforms :: "host \<Rightarrow> string list \<Rightarrow> error + string list" where
  "new_curves_transforms h [] = Inr []"
| "new_curves_transforms h (c # cs) =
     (case subscript0 (parent h c) of
        Inl e \<Rightarrow> Inl e
      | Inr t \<Rightarrow> (case new_curves_transforms h cs of Inl e \<Rightarrow> Inl e | Inr ts \<Rightarrow> Inr (t # ts)))"

text \<open>
  The effect of \<^verbatim>\<open>pgYetiCommand -convertToCurves\<close> on the scene is the plugin's own
  and is a parameter \<open>convertToCurves\<close> of the model. The dictionary returned has at
  most one key and is an association list.
\<close>

definition groom_to_curves ::
  "(string \<Rightarrow> host \<Rightarrow> host) \<Rightarrow> string \<Rightarrow> host \<Rightarrow> error + ((string \<times> string list) list \<times> host)" where
  "groom_to_curves convertToCurves groom h =
     (let before_curves = nurbsCurve h;
          h1 = cmds_select groom h;
          h2 = convertToCurves groom h1;
          after_curves = nurbsCurve h2;
          new_curves = filter (\<lambda>c. c \<notin> set before_curves) after_curves
      in case new_curves_transforms h2 new_curves of
           Inl e \<Rightarrow> Inl e
         | Inr transforms \<Rightarrow>
             if new_curves \<noteq> [] then
               (case subscript0 (parent h2 (hd new_curves)) of
                  Inl e \<Rightarrow> Inl e
                | Inr transform \<Rightarrow>
                    (case subscript0 (objectSet h2 transform) of
                       Inl e \<Rightarrow> Inl e
                     | Inr guide_set \<Rightarrow>
                         Inr ([(guide_set, new_curves)],
                              cmds_sets_add transforms guide_set h2)))
             else Inr ([], h2))"

subsection \<open>\<^verbatim>\<open>yetis_from_groom\<close>\<close>

definition yetis_from_groom :: "host \<Rightarrow> string \<Rightarrow> string list option" where
  "yetis_from_groom h groom = pgYetiMaya h groom"

subsection \<open>\<^verbatim>\<open>refresh_graph\<close>\<close>

definition refresh_graph :: "host \<Rightarrow> host" where
  "refresh_graph h =
     (let h1 = pgYetiTearOffGraphPanel h
      in if YETI_WIN \<in> set (windows h1) then cmds_deleteUI YETI_WIN h1 else h1)"

subsection \<open>\<^verbatim>\<open>create_node\<close>\<close>

definition create_node :: "string \<Rightarrow> string \<Rightarrow> string option \<Rightarrow> host \<Rightarrow> string \<times> host" where
  "create_node yeti type name h =
     (let (node, h1) = pgYetiGraph_create type yeti h;
          h2 = pgYetiGraph_disconnect 0 node yeti h1
      in if truthy name
         then (the name, refresh_graph (pgYetiGraph_rename node (the name) yeti h2))
         else (node, refresh_graph h2))"

subsection \<open>\<^verbatim>\<open>get_imports\<close>\<close>

definition import_type_dict :: "(string \<times> int) list" where
  "import_type_dict =
     [(''geometry'', 0), (''groom'', 1), (''guides'', 2), (''feather'', 3), (''braid'', 4)]"

text \<open>The \<^verbatim>\<open>for imp_node in imp_nodes\<close> loop, with the list \<open>type_nodes\<close> built so far.
  \<^verbatim>\<open>type_dict[type]\<close> is looked up once for every node listed.\<close>

fun get_imports_loop ::
  "host \<Rightarrow> string \<Rightarrow> string \<Rightarrow> string option \<Rightarrow> string list \<Rightarrow> string list \<Rightarrow> error + string list" where
  "get_imports_loop h yeti type sel [] type_nodes = Inr type_nodes"
| "get_imports_loop h yeti type sel (imp_node # imp_nodes) type_nodes =
     (let curr_type = pgYetiGraph_getParamValue imp_node ''type'' yeti h
      in case map_of import_type_dict type of
           None \<Rightarrow> Inl KeyError
         | Some code \<Rightarrow>
             if curr_type = Num code then
               if truthy sel then
                 (let curr_selection = pgYetiGraph_getParamValue imp_node ''geometry'' yeti h
                  in if curr_selection = Str (the sel)
                     then get_imports_loop h yeti type sel imp_nodes (type_nodes @ [imp_node])
                     else get_imports_loop h yeti type sel imp_nodes type_nodes)
               else get_imports_loop h yeti type sel imp_nodes (type_nodes @ [imp_node])
             else get_imports_loop h yeti type sel imp_nodes type_nodes)"

definition get_imports :: "host \<Rightarrow> string \<Rightarrow> string \<Rightarrow> string option \<Rightarrow> error + string list" where
  "get_imports h yeti type sel =
     get_imports_loop h yeti type sel (pgYetiGraph_listNodes ''import'' yeti h) []"

subsection \<open>\<^verbatim>\<open>set_param\<close> and \<^verbatim>\<open>connect_nodes\<close>\<close>

definition param_type_dict :: "(string \<times> string) list" where
  "param_type_dict =
     [(''scalar'', ''setParamValueScalar''), (''string'', ''setParamValueString ''),
      (''vector'', ''setParamValueVector''), (''expression'', ''setParamValueExpr''),
      (''boolean'', ''setParamValueBoolean'')]"

definition set_param :: "string \<Rightarrow> string \<Rightarrow> string \<Rightarrow> pval \<Rightarrow> string \<Rightarrow> host \<Rightarrow> error + host" where
  "set_param yeti param node val type h =
     (case map_of param_type_dict type of
        None \<Rightarrow> Inl KeyError
      | Some flag \<Rightarrow> Inr (refresh_graph (pgYetiGraph_setParam node param flag val yeti h)))"

definition connect_nodes :: "string \<Rightarrow> string \<Rightarrow> string \<Rightarrow> nat \<Rightarrow> host \<Rightarrow> host" where
  "connect_nodes yeti from_node to_node input h =
     refresh_graph (pgYetiGraph_connect from_node to_node input yeti h)"

subsection \<open>\<^verbatim>\<open>guided_grooms\<close>\<close>

text \<open>The loop \<^verbatim>\<open>for guide in groom_dict[groom_dict.keys()[0]]\<close>.\<close>

fun set_guide_attrs :: "string list \<Rightarrow> host \<Rightarrow> host" where
  "set_guide_attrs [] h = h"
| "set_guide_attrs (guide # guides) h =
     set_guide_attrs guides
       (cmds_setAttr (guide @ ''.baseAttraction'') 1
         (cmds_setAttr (guide @ ''.tipAttraction'') 1
           (cmds_setAttr (guide @ ''.weight'') 10 h)))"

text \<open>The loop \<^verbatim>\<open>for groom_node in groom_nodes\<close>.\<close>

fun wire_groom_nodes :: "string \<Rightarrow> string \<Rightarrow> string \<Rightarrow> string list \<Rightarrow> host \<Rightarrow> host" where
  "wire_groom_nodes yeti geo_node guide_import [] h = h"
| "wire_groom_nodes yeti geo_node guide_import (groom_node # groom_nodes) h =
     (let (convert_node, h1) = create_node yeti ''convert'' None h;
          h2 = connect_nodes yeti groom_node convert_node 0 h1;
          h3 = connect_nodes yeti geo_node convert_node 1 h2;
          (guide_node, h4) = create_node yeti ''guide'' None h3;
          h5 = connect_nodes yeti convert_node guide_node 0 h4;
          h6 = connect_nodes yeti guide_import guide_node 1 h5;
          (blend_node, h7) = create_node yeti ''blend'' None h6;
          h8 = connect_nodes yeti convert_node blend_node 0 h7;
          h9 = connect_nodes yeti guide_node blend_node 1 h8
      in wire_groom_nodes yeti geo_node guide_import groom_nodes h9)"

text \<open>The first half of the \<^verbatim>\<open>else\<close> branch of the loop over the plugin instances,
  taken once both guards have passed: the guide set is registered, the guide-import node
  created and set up, and the guide attributes set. It hands on the name of the guide-import
  node. \<^verbatim>\<open>groom_dict.keys()[0]\<close> is Python 2: the first key, an \<^verbatim>\<open>IndexError\<close>
  on an empty dictionary.\<close>

definition import_guides ::
  "(string \<times> string list) list \<Rightarrow> string \<Rightarrow> host \<Rightarrow> error + (string \<times> host)" where
  "import_guides groom_dict yeti h =
     (case groom_dict of
        [] \<Rightarrow> Inl IndexError
      | (guide_set, guides) # _ \<Rightarrow>
          (let h1 = pgYetiAddGuideSet guide_set yeti h;
               (guide_import, h2) = create_node yeti ''import'' (Some guide_set) h1
           in case set_param yeti ''type'' guide_import (Num 2) ''scalar'' h2 of
                Inl e \<Rightarrow> Inl e
              | Inr h3 \<Rightarrow>
                  (case set_param yeti ''geometry'' guide_import (Str guide_set) ''string'' h3 of
                     Inl e \<Rightarrow> Inl e
                   | Inr h4 \<Rightarrow>
                       (let h5 = cmds_setAttr (guide_set @ ''.maxNumberOfGuideInfluences'') 1 h4
                        in Inr (guide_import, set_guide_attrs guides h5)))))"

text \<open>The whole \<^verbatim>\<open>else\<close> branch: the guide import, then the loop over the groom-import
  nodes.\<close>

definition build_guided_graph ::
  "(string \<times> string list) list \<Rightarrow> string \<Rightarrow> string \<Rightarrow> string list \<Rightarrow> host \<Rightarrow> error + host" where
  "build_guided_graph groom_dict yeti geo_node groom_nodes h =
     (case import_guides groom_dict yeti h of
        Inl e \<Rightarrow> Inl e
      | Inr (guide_import, h6) \<Rightarrow>
          Inr (wire_groom_nodes yeti geo_node guide_import groom_nodes h6))"

text \<open>The groom-import query of one instance: by the groom's name first, by \<^verbatim>\<open>'*'\<close> when
  that finds nothing.\<close>

definition find_groom_nodes :: "host \<Rightarrow> string \<Rightarrow> string \<Rightarrow> error + string list" where
  "find_groom_nodes h yeti groom =
     (case get_imports h yeti ''groom'' (Some groom) of
        Inl e \<Rightarrow> Inl e
      | Inr groom_nodes \<Rightarrow>
          if groom_nodes = [] then get_imports h yeti ''groom'' (Some ''*'')
          else Inr groom_nodes)"

text \<open>The body of \<^verbatim>\<open>for yeti in yeti_nodes\<close>.\<close>

definition guided_yeti ::
  "string \<Rightarrow> (string \<times> string list) list \<Rightarrow> string \<Rightarrow> host \<Rightarrow> error + host" where
  "guided_yeti groom groom_dict yeti h =
     (case get_imports h yeti ''geometry'' None of
        Inl e \<Rightarrow> Inl e
      | Inr geo_nodes \<Rightarrow>
          (case find_groom_nodes h yeti groom of
             Inl e \<Rightarrow> Inl e
           | Inr groom_nodes \<Rightarrow>
               if groom_nodes = [] then
                 Inr (cmds_warning
                   (''Yeti node: '' @ yeti @ '' has no grooms imported in the graph, skipping...'') h)
               else if length geo_nodes \<noteq> 1 then
                 Inr (cmds_warning
                   (''Yeti node: '' @ yeti @ '' has several geometry import nodes, skipping...'') h)
               else build_guided_graph groom_dict yeti (hd geo_nodes) groom_nodes h))"

fun guided_yetis ::
  "string \<Rightarrow> (string \<times> string list) list \<Rightarrow> string list \<Rightarrow> host \<Rightarrow> error + host" where
  "guided_yetis groom groom_dict [] h = Inr h"
| "guided_yetis groom groom_dict (yeti # yeti_nodes) h =
     (case guided_yeti groom groom_dict yeti h of
        Inl e \<Rightarrow> Inl e
      | Inr h1 \<Rightarrow> guided_yetis groom groom_dict yeti_nodes h1)"

text \<open>The body of \<^verbatim>\<open>for groom in get_sel_grooms()\<close>. Iterating an absent list of
  instances is a \<^verbatim>\<open>TypeError\<close>, raised after the conversion has run.\<close>

definition guided_groom :: "(string \<Rightarrow> host \<Rightarrow> host) \<Rightarrow> string \<Rightarrow> host \<Rightarrow> error + host" where
  "guided_groom convertToCurves groom h =
     (let yeti_nodes = yetis_from_groom h groom
      in case groom_to_curves convertToCurves groom h of
           Inl e \<Rightarrow> Inl e
         | Inr (groom_dict, h1) \<Rightarrow>
             (case yeti_nodes of
                None \<Rightarrow> Inl TypeError
              | Some ys \<Rightarrow> guided_yetis groom groom_dict ys h1))"

fun guided_grooms_loop :: "(string \<Rightarrow> host \<Rightarrow> host) \<Rightarrow> string list \<Rightarrow> host \<Rightarrow> error + host" where
  "guided_grooms_loop convertToCurves [] h = Inr h"
| "guided_grooms_loop convertToCurves (groom # grooms) h =
     (case guided_groom convertToCurves groom h of
        Inl e \<Rightarrow> Inl e
      | Inr h1 \<Rightarrow> guided_grooms_loop convertToCurves grooms h1)"

definition guided_grooms :: "(string \<Rightarrow> host \<Rightarrow> host) \<Rightarrow> host \<Rightarrow> error + host" where
  "guided_grooms convertToCurves h =
     (let graph_open = YETI_WIN \<in> set (windows h);
          h1 = (if graph_open then refresh_graph h else h)
      in case get_sel_grooms h1 of
           Inl e \<Rightarrow> Inl e
         | Inr grooms \<Rightarrow>
             (case guided_grooms_loop convertToCurves grooms h1 of
                Inl e \<Rightarrow> Inl e
              | Inr h2 \<Rightarrow> Inr (if graph_open then pgYetiTearOffGraphPanel h2 else h2)))"

section \<open>The guided graph in the words of the specification\<close>

text \<open>
  The graph commands of steps (c) and (d) of the orchestration, in the specification's
  words: register the guide set with the instance; create an import node (create, then
  disconnect its input 0, then rename it after the guide set); force its import mode to the
  guides code 2; set its geometry selection to the guide set. \<open>node\<close> is the name the
  plugin gave the new node; a node keeps that name when the guide set's name is empty.
\<close>

definition spec_guide_import_calls :: "string \<Rightarrow> string \<Rightarrow> string \<Rightarrow> call list" where
  "spec_guide_import_calls yeti guide_set node =
     [AddGuideSet guide_set yeti, Create yeti ''import'' node, Disconnect yeti 0 node]
     @ (if guide_set = [] then [] else [Rename yeti node guide_set])
     @ [SetParam yeti (if guide_set = [] then node else guide_set) ''type''
          ''setParamValueScalar'' (Num 2),
        SetParam yeti (if guide_set = [] then node else guide_set) ''geometry''
          ''setParamValueString '' (Str guide_set)]"

text \<open>
  The graph commands of step (f) for one groom-import node: a convert, a guide and a blend
  node are created (each create followed by the disconnect of input 0), with groom-import
  and geometry-import into convert (ports 0, 1), convert and the guide-import into guide
  (ports 0, 1), convert and guide into blend (ports 0, 1).
\<close>

fun spec_chain_calls ::
  "string \<Rightarrow> string \<Rightarrow> string \<Rightarrow> string \<Rightarrow> string \<times> string \<times> string \<Rightarrow> call list" where
  "spec_chain_calls yeti geo_import guide_import groom_import (convert, guide, blend) =
     [Create yeti ''convert'' convert, Disconnect yeti 0 convert,
      Connect yeti groom_import convert 0, Connect yeti geo_import convert 1,
      Create yeti ''guide'' guide, Disconnect yeti 0 guide,
      Connect yeti convert guide 0, Connect yeti guide_import guide 1,
      Create yeti ''blend'' blend, Disconnect yeti 0 blend,
      Connect yeti convert blend 0, Connect yeti guide blend 1]"

text \<open>
  The attribute calls of step (e): max-guide-influences 1 on the guide set, then weight 10
  and tip and base attraction 1 on each curve.
\<close>

definition spec_guide_attrs :: "string \<Rightarrow> string list \<Rightarrow> (string \<times> int) list" where
  "spec_guide_attrs guide_set curves =
     (guide_set @ ''.maxNumberOfGuideInfluences'', 1)
     # concat (map (\<lambda>curve. [(curve @ ''.weight'', 10), (curve @ ''.tipAttraction'', 1),
                               (curve @ ''.baseAttraction'', 1)]) curves)"

text \<open>
  The node list of a graph once the guide-import node has been created under the plugin's
  name \<open>node\<close> and renamed after the guide set.
\<close>

definition imported_nodes ::
  "string \<Rightarrow> string \<Rightarrow> (string \<times> string) list \<Rightarrow> (string \<times> string) list" where
  "imported_nodes guide_set node ns =
     (if guide_set = [] then ns @ [(node, ''import'')]
      else map (\<lambda>(m, t). (if m = node then guide_set else m, t)) (ns @ [(node, ''import'')]))"

text \<open>
  The names the plugin hands out while \<open>k\<close> chains of convert, guide and blend nodes are
  created one after the other, starting from the node list \<open>ns\<close>: each node is named in
  the graph as it is when the node is created.
\<close>

fun chain_names ::
  "(string \<Rightarrow> (string \<times> string) list \<Rightarrow> string) \<Rightarrow> (string \<times> string) list \<Rightarrow> nat
     \<Rightarrow> (string \<times> string \<times> string) list" where
  "chain_names name ns 0 = []"
| "chain_names name ns (Suc k) =
     (let convert = name ''convert'' ns;
          ns1 = ns @ [(convert, ''convert'')];
          guide = name ''guide'' ns1;
          ns2 = ns1 @ [(guide, ''guide'')];
          blend = name ''blend'' ns2;
          ns3 = ns2 @ [(blend, ''blend'')]
      in (convert, guide, blend) # chain_names name ns3 k)"

section \<open>Example scenes\<close>

definition empty_graph :: graph where
  "empty_graph = \<lparr>nodes = [], params = (\<lambda>node param. Num 0)\<rparr>"

definition fur_graph :: graph where
  "fur_graph =
     \<lparr>nodes = [(''geo'', ''import''), (''hairA'', ''import''), (''grow'', ''grow''),
               (''hairB'', ''import'')],
      params = (\<lambda>node param.
        if param = ''type'' then (if node = ''geo'' then Num 0 else Num 1)
        else if param = ''geometry''
          then (if node = ''geo'' then Str ''bodyShape'' else Str ''hairShape'')
        else Num 0)\<rparr>"

definition demo_scene :: host where
  "demo_scene =
     \<lparr>selection = [''hair''],
      objectType = (\<lambda>obj.
        if obj = ''hairShape'' then ''pgYetiGroom''
        else if obj = ''bodyShape'' then ''mesh''
        else ''transform''),
      shapes = (\<lambda>obj.
        if obj = ''hair'' then Some [''hairShape'']
        else if obj = ''body'' then Some [''bodyShape'']
        else None),
      parent = (\<lambda>obj.
        if obj = ''curveShape1'' then Some [''curve1'']
        else if obj = ''curveShape2'' then Some [''curve2'']
        else None),
      nurbsCurve = [],
      objectSet = (\<lambda>obj. if obj = ''curve1'' then Some [''hairSet''] else None),
      pgYetiMaya = (\<lambda>obj. if obj = ''hairShape'' then Some [''fur''] else None),
      members = (\<lambda>s. {}),
      windows = [],
      graphs = (\<lambda>yeti. if yeti = ''fur'' then fur_graph else empty_graph),
      nodeName = (\<lambda>type ns.
        type @ replicate (Suc (length (filter (\<lambda>(n, t). t = type) ns))) (CHR ''I'')),
      calls = [],
      attrs = [],
      warnings = []\<rparr>"

definition demo_convert :: "string \<Rightarrow> host \<Rightarrow> host" where
  "demo_convert groom h = h\<lparr>nurbsCurve := nurbsCurve h @ [''curveShape1'', ''curveShape2'']\<rparr>"

definition idle_convert :: "string \<Rightarrow> host \<Rightarrow> host" where
  "idle_convert groom h = h"

definition two_geo_graph :: graph where
  "two_geo_graph =
     \<lparr>nodes = [(''geoA'', ''import''), (''geoB'', ''import''), (''hairA'', ''import'')],
      params = (\<lambda>node param.
        if param = ''type'' then (if node = ''hairA'' then Num 1 else Num 0)
        else if param = ''geometry''
          then (if node = ''hairA'' then Str ''hairShape'' else Str ''bodyShape'')
        else Num 0)\<rparr>"

definition other_groom_graph :: graph where
  "other_groom_graph =
     \<lparr>nodes = [(''geo'', ''import''), (''beard'', ''import'')],
      params = (\<lambda>node param.
        if param = ''type'' then (if node = ''geo'' then Num 0 else Num 1)
        else if param = ''geometry''
          then (if node = ''geo'' then Str ''bodyShape'' else Str ''beardShape'')
        else Num 0)\<rparr>"

definition wildcard_graph :: graph where
  "wildcard_graph =
     \<lparr>nodes = [(''geo'', ''import''), (''any'', ''import'')],
      params = (\<lambda>node param.
        if param = ''type'' then (if node = ''geo'' then Num 0 else Num 1)
        else if param = ''geometry''
          then (if node = ''geo'' then Str ''bodyShape'' else Str ''*'')
        else Num 0)\<rparr>"

definition two_geo_scene :: host where
  "two_geo_scene = demo_scene\<lparr>graphs := (\<lambda>yeti. two_geo_graph)\<rparr>"

definition other_groom_scene :: host where
  "other_groom_scene = demo_scene\<lparr>graphs := (\<lambda>yeti. other_groom_graph)\<rparr>"

definition wildcard_scene :: host where
  "wildcard_scene = demo_scene\<lparr>graphs := (\<lambda>yeti. wildcard_graph)\<rparr>"

text \<open>The example scene with no plugin instance connected to the groom:
  \<^verbatim>\<open>cmds.listConnections\<close> answers with no list when nothing is connected.\<close>

definition lonely_scene :: host where
  "lonely_scene = demo_scene\<lparr>pgYetiMaya := (\<lambda>obj. None)\<rparr>"

definition converted_scene :: host where
  "converted_scene =
     cmds_sets_add [''curve1'', ''curve2''] ''hairSet''
       (demo_convert ''hairShape'' (cmds_select ''hairShape'' demo_scene))"

section \<open>Selection\<close>

lemma subscript0_Inr: "subscript0 r = Inr x \<longleftrightarrow> (\<exists>xs. r = Some (x # xs))"
  by (auto simp: subscript0_def split: option.splits list.splits)

lemma subscript0_Inl: "(\<exists>e. subscript0 r = Inl e) \<longleftrightarrow> (r = None \<or> r = Some [])"
  by (auto simp: subscript0_def split: option.splits list.splits)

lemma get_sel_grooms_loop_ok:
  "\<forall>obj\<in>set sel. objectType h obj = ''transform'' \<longrightarrow> (\<exists>s ss. shapes h obj = Some (s # ss)) \<Longrightarrow>
   get_sel_grooms_loop h sel grooms =
     Inr (grooms @ filter (\<lambda>s. objectType h s = ''pgYetiGroom'')
        (map (\<lambda>obj. if objectType h obj = ''transform'' then hd (the (shapes h obj)) else obj) sel))"
proof (induction sel arbitrary: grooms)
  case Nil
  then show ?case by simp
next
  case (Cons obj sel)
  show ?case
  proof (cases "objectType h obj = ''transform''")
    case True
    with Cons.prems obtain s ss where s: "shapes h obj = Some (s # ss)" by auto
    with True Cons show ?thesis by (simp add: subscript0_def)
  next
    case False
    with Cons show ?thesis by simp
  qed
qed

lemma get_sel_grooms_loop_raises:
  "(\<exists>e. get_sel_grooms_loop h sel grooms = Inl e) \<longleftrightarrow>
   (\<exists>obj\<in>set sel. objectType h obj = ''transform'' \<and> (shapes h obj = None \<or> shapes h obj = Some []))"
proof (induction sel arbitrary: grooms)
  case Nil
  then show ?case by simp
next
  case (Cons obj sel)
  show ?case
  proof (cases "objectType h obj = ''transform''")
    case True
    show ?thesis
    proof (cases "subscript0 (shapes h obj)")
      case (Inl e)
      then have "shapes h obj = None \<or> shapes h obj = Some []"
        using subscript0_Inl [of "shapes h obj"] by blast
      with True Inl show ?thesis by auto
    next
      case (Inr s)
      then have "\<not> (shapes h obj = None \<or> shapes h obj = Some [])"
        by (auto simp: subscript0_Inr)
      with True Inr Cons.IH [of "if objectType h s = ''pgYetiGroom'' then grooms @ [s] else grooms"]
      show ?thesis by auto
    qed
  next
    case False
    with Cons.IH show ?thesis by simp
  qed
qed

text \<open>
  C8. \<^verbatim>\<open>get_sel_grooms\<close> returns, in selection order and with duplicates kept, the groom
  shapes the selected handles resolve to (a transform resolves to its first shape child, any
  other handle to itself), provided every selected transform has a shape child. For an empty
  selection, and for a selection of shapes none of which is a groom, it returns the empty
  list and raises nothing.
\<close>

theorem get_sel_grooms_result:
  "((\<forall>obj\<in>set (selection h). objectType h obj = ''transform'' \<longrightarrow>
        (\<exists>s ss. shapes h obj = Some (s # ss))) \<longrightarrow>
      get_sel_grooms h =
        Inr (filter (\<lambda>s. objectType h s = ''pgYetiGroom'')
          (map (\<lambda>obj. if objectType h obj = ''transform'' then hd (the (shapes h obj)) else obj)
             (selection h))))
   \<and> (selection h = [] \<longrightarrow> get_sel_grooms h = Inr [])
   \<and> ((\<forall>obj\<in>set (selection h).
          objectType h obj \<noteq> ''transform'' \<and> objectType h obj \<noteq> ''pgYetiGroom'') \<longrightarrow>
        get_sel_grooms h = Inr [])"
proof (intro conjI impI)
  assume "\<forall>obj\<in>set (selection h). objectType h obj = ''transform'' \<longrightarrow>
            (\<exists>s ss. shapes h obj = Some (s # ss))"
  then show "get_sel_grooms h =
        Inr (filter (\<lambda>s. objectType h s = ''pgYetiGroom'')
          (map (\<lambda>obj. if objectType h obj = ''transform'' then hd (the (shapes h obj)) else obj)
             (selection h)))"
    unfolding get_sel_grooms_def using get_sel_grooms_loop_ok [of "selection h" h "[]"] by simp
next
  assume "selection h = []"
  then show "get_sel_grooms h = Inr []" by (simp add: get_sel_grooms_def)
next
  assume a: "\<forall>obj\<in>set (selection h).
          objectType h obj \<noteq> ''transform'' \<and> objectType h obj \<noteq> ''pgYetiGroom''"
  then have "get_sel_grooms h =
        Inr (filter (\<lambda>s. objectType h s = ''pgYetiGroom'')
          (map (\<lambda>obj. if objectType h obj = ''transform'' then hd (the (shapes h obj)) else obj)
             (selection h)))"
    unfolding get_sel_grooms_def using get_sel_grooms_loop_ok [of "selection h" h "[]"] by simp
  also from a have "filter (\<lambda>s. objectType h s = ''pgYetiGroom'')
          (map (\<lambda>obj. if objectType h obj = ''transform'' then hd (the (shapes h obj)) else obj)
             (selection h)) = []"
    by (auto simp: filter_empty_conv)
  finally show "get_sel_grooms h = Inr []" .
qed

theorem get_sel_grooms_result_witness:
  "get_sel_grooms (demo_scene\<lparr>selection := [''hair'', ''body'', ''hairShape'', ''hair'']\<rparr>) =
     Inr [''hairShape'', ''hairShape'', ''hairShape'']
   \<and> get_sel_grooms (demo_scene\<lparr>selection := []\<rparr>) = Inr []
   \<and> get_sel_grooms (demo_scene\<lparr>selection := [''bodyShape'', ''bodyShape'']\<rparr>) = Inr []"
  using get_sel_grooms_result [of "demo_scene\<lparr>selection := [''hair'', ''body'', ''hairShape'', ''hair'']\<rparr>"]
    get_sel_grooms_result [of "demo_scene\<lparr>selection := []\<rparr>"]
    get_sel_grooms_result [of "demo_scene\<lparr>selection := [''bodyShape'', ''bodyShape'']\<rparr>"]
  by (simp add: demo_scene_def)

text \<open>
  C10. \<^verbatim>\<open>get_sel_grooms\<close> raises exactly when the selection contains a transform
  whose shape list is absent or empty: \<^verbatim>\<open>cmds.listRelatives(obj, shapes=1)[0]\<close> is
  subscripted without a check, so such an entry is not skipped.
\<close>

theorem get_sel_grooms_raises:
  "(\<exists>e. get_sel_grooms h = Inl e) \<longleftrightarrow>
   (\<exists>obj\<in>set (selection h).
      objectType h obj = ''transform'' \<and> (shapes h obj = None \<or> shapes h obj = Some []))"
  unfolding get_sel_grooms_def by (rule get_sel_grooms_loop_raises)

theorem get_sel_grooms_raises_witness:
  "get_sel_grooms (demo_scene\<lparr>selection := [''hair'', ''locator'']\<rparr>) = Inl TypeError
   \<and> objectType demo_scene ''locator'' = ''transform'' \<and> shapes demo_scene ''locator'' = None"
proof -
  have "\<exists>e. get_sel_grooms (demo_scene\<lparr>selection := [''hair'', ''locator'']\<rparr>) = Inl e"
    using get_sel_grooms_raises [of "demo_scene\<lparr>selection := [''hair'', ''locator'']\<rparr>"]
    by (simp add: demo_scene_def)
  then show ?thesis
    by (simp add: demo_scene_def get_sel_grooms_def subscript0_def)
qed

section \<open>Graph operations and queries\<close>

lemma refresh_graph_closed: "YETI_WIN \<notin> set (windows (refresh_graph h))"
  by (simp add: refresh_graph_def Let_def cmds_deleteUI_def)

lemma refresh_graph_calls [simp]: "calls (refresh_graph h) = calls h"
  by (simp add: refresh_graph_def Let_def cmds_deleteUI_def pgYetiTearOffGraphPanel_def)

lemma refresh_graph_attrs [simp]: "attrs (refresh_graph h) = attrs h"
  by (simp add: refresh_graph_def Let_def cmds_deleteUI_def pgYetiTearOffGraphPanel_def)

lemma refresh_graph_warnings [simp]: "warnings (refresh_graph h) = warnings h"
  by (simp add: refresh_graph_def Let_def cmds_deleteUI_def pgYetiTearOffGraphPanel_def)

text \<open>
  C9. After \<^verbatim>\<open>create_node\<close>, \<^verbatim>\<open>set_param\<close> and \<^verbatim>\<open>connect_nodes\<close> return, the
  graph editor window \<^verbatim>\<open>pgYetiGraphPanelWindow\<close> is not among the open windows: each ends
  with \<^verbatim>\<open>refresh_graph\<close>, which deletes the window when it is open.
  \<^verbatim>\<open>create_node\<close> and \<^verbatim>\<open>connect_nodes\<close> always return; \<^verbatim>\<open>set_param\<close> returns
  whenever its parameter type is one of the five it knows.
\<close>

theorem graph_window_closed:
  "YETI_WIN \<notin> set (windows (snd (create_node yeti type name h)))
   \<and> (\<forall>h'. set_param yeti param node val ptype h = Inr h' \<longrightarrow> YETI_WIN \<notin> set (windows h'))
   \<and> (map_of param_type_dict ptype \<noteq> None \<longrightarrow> (\<exists>h'. set_param yeti param node val ptype h = Inr h'))
   \<and> YETI_WIN \<notin> set (windows (connect_nodes yeti from_node to_node input h))"
  by (auto simp: create_node_def set_param_def connect_nodes_def refresh_graph_closed Let_def
      split: prod.splits option.splits)

theorem graph_window_closed_witness:
  "YETI_WIN \<in> set (windows (demo_scene\<lparr>windows := [YETI_WIN]\<rparr>))
   \<and> YETI_WIN \<notin> set (windows (snd (create_node ''fur'' ''convert'' None (demo_scene\<lparr>windows := [YETI_WIN]\<rparr>))))
   \<and> (case set_param ''fur'' ''type'' ''geo'' (Num 2) ''scalar'' (demo_scene\<lparr>windows := [YETI_WIN]\<rparr>) of
        Inl e \<Rightarrow> False | Inr h' \<Rightarrow> YETI_WIN \<notin> set (windows h'))
   \<and> YETI_WIN \<notin> set (windows (connect_nodes ''fur'' ''geo'' ''hairA'' 0 (demo_scene\<lparr>windows := [YETI_WIN]\<rparr>)))"
  using graph_window_closed [of "''fur''" "''convert''" None "demo_scene\<lparr>windows := [YETI_WIN]\<rparr>"
      "''type''" "''geo''" "Num 2" "''scalar''" "''geo''" "''hairA''" 0]
  by (auto simp: param_type_dict_def split: sum.splits)

lemma get_imports_loop_eq:
  "map_of import_type_dict type = Some code \<Longrightarrow>
   get_imports_loop h yeti type sel imp_nodes type_nodes =
     Inr (type_nodes @ filter (\<lambda>n.
        pgYetiGraph_getParamValue n ''type'' yeti h = Num code \<and>
        (truthy sel \<longrightarrow> pgYetiGraph_getParamValue n ''geometry'' yeti h = Str (the sel)))
       imp_nodes)"
  by (induction imp_nodes arbitrary: type_nodes) (simp_all add: Let_def)

lemma get_imports_eq:
  "map_of import_type_dict type = Some code \<Longrightarrow>
   get_imports h yeti type sel =
     Inr (filter (\<lambda>n.
        pgYetiGraph_getParamValue n ''type'' yeti h = Num code \<and>
        (truthy sel \<longrightarrow> pgYetiGraph_getParamValue n ''geometry'' yeti h = Str (the sel)))
       (pgYetiGraph_listNodes ''import'' yeti h))"
  by (simp add: get_imports_def get_imports_loop_eq)

text \<open>
  C7. For a logical import type with code \<open>code\<close> in the type table and a non-empty
  selection filter, \<^verbatim>\<open>get_imports\<close> returns exactly the listed import nodes whose
  \<^verbatim>\<open>type\<close> parameter equals the code and whose \<^verbatim>\<open>geometry\<close> parameter is that very
  string, in listing order; the filter \<^verbatim>\<open>'*'\<close> is compared like any other string.
  Without a filter it returns all listed import nodes of that type, in listing order.
\<close>

theorem get_imports_exact:
  "map_of import_type_dict type = Some code \<Longrightarrow>
   (sel \<noteq> [] \<longrightarrow>
      get_imports h yeti type (Some sel) =
        Inr (filter (\<lambda>n.
            pgYetiGraph_getParamValue n ''type'' yeti h = Num code \<and>
            pgYetiGraph_getParamValue n ''geometry'' yeti h = Str sel)
          (pgYetiGraph_listNodes ''import'' yeti h)))
   \<and> get_imports h yeti type None =
        Inr (filter (\<lambda>n. pgYetiGraph_getParamValue n ''type'' yeti h = Num code)
          (pgYetiGraph_listNodes ''import'' yeti h))"
  by (simp add: get_imports_eq truthy_def)


theorem get_imports_exact_witness:
  "map_of import_type_dict ''groom'' = Some 1
   \<and> get_imports demo_scene ''fur'' ''groom'' (Some ''hairShape'') = Inr [''hairA'', ''hairB'']
   \<and> get_imports demo_scene ''fur'' ''groom'' (Some ''*'') = Inr []
   \<and> get_imports demo_scene ''fur'' ''groom'' None = Inr [''hairA'', ''hairB'']"
  using get_imports_exact [of "''groom''" 1 "''hairShape''" demo_scene "''fur''"]
    get_imports_exact [of "''groom''" 1 "''*''" demo_scene "''fur''"]
  by (simp add: import_type_dict_def demo_scene_def fur_graph_def
      pgYetiGraph_listNodes_def pgYetiGraph_getParamValue_def)

section \<open>Conversion to curves\<close>

lemma new_curves_transforms_ok:
  "\<forall>c\<in>set cs. \<exists>t ts. parent h c = Some (t # ts) \<Longrightarrow>
   new_curves_transforms h cs = Inr (map (\<lambda>c. hd (the (parent h c))) cs)"
  by (induction cs) (auto simp: subscript0_def)

lemma groom_to_curves_shape:
  "groom_to_curves convertToCurves groom h = Inr (d, h') \<Longrightarrow>
   d = [] \<and> filter (\<lambda>c. c \<notin> set (nurbsCurve h))
              (nurbsCurve (convertToCurves groom (cmds_select groom h))) = []
   \<or> (\<exists>guide_set. d = [(guide_set, filter (\<lambda>c. c \<notin> set (nurbsCurve h))
              (nurbsCurve (convertToCurves groom (cmds_select groom h))))]
        \<and> filter (\<lambda>c. c \<notin> set (nurbsCurve h))
              (nurbsCurve (convertToCurves groom (cmds_select groom h))) \<noteq> [])"
  unfolding groom_to_curves_def Let_def
  by (auto split: sum.splits if_splits)

text \<open>
  C5. \<^verbatim>\<open>groom_to_curves\<close> returns the empty mapping whenever the conversion command
  produced no new curve. When it produced some, each with a parent transform, and the first
  one's transform is connected to an object set, it returns the mapping from that guide set
  to the new curve shapes, having added their transforms to the set. Whenever it returns,
  the mapping is one of these two.
\<close>

theorem groom_to_curves_mapping:
  fixes convertToCurves :: "string \<Rightarrow> host \<Rightarrow> host" and groom :: string and h :: host
  defines "h2 \<equiv> convertToCurves groom (cmds_select groom h)"
  defines "new_curves \<equiv> filter (\<lambda>c. c \<notin> set (nurbsCurve h)) (nurbsCurve h2)"
  shows "(new_curves = [] \<longrightarrow> groom_to_curves convertToCurves groom h = Inr ([], h2))
    \<and> (new_curves \<noteq> [] \<and> (\<forall>c\<in>set new_curves. \<exists>t ts. parent h2 c = Some (t # ts))
         \<and> objectSet h2 (hd (the (parent h2 (hd new_curves)))) = Some (guide_set # sets) \<longrightarrow>
       groom_to_curves convertToCurves groom h =
         Inr ([(guide_set, new_curves)],
              cmds_sets_add (map (\<lambda>c. hd (the (parent h2 c))) new_curves) guide_set h2))
    \<and> (\<forall>d h'. groom_to_curves convertToCurves groom h = Inr (d, h') \<longrightarrow>
         (d = [] \<and> new_curves = []) \<or> (\<exists>gs. d = [(gs, new_curves)] \<and> new_curves \<noteq> []))"
proof (intro conjI impI allI)
  assume "new_curves = []"
  then show "groom_to_curves convertToCurves groom h = Inr ([], h2)"
    by (simp add: groom_to_curves_def Let_def h2_def new_curves_def)
next
  assume a: "new_curves \<noteq> [] \<and> (\<forall>c\<in>set new_curves. \<exists>t ts. parent h2 c = Some (t # ts))
         \<and> objectSet h2 (hd (the (parent h2 (hd new_curves)))) = Some (guide_set # sets)"
  then have t: "new_curves_transforms h2 new_curves =
      Inr (map (\<lambda>c. hd (the (parent h2 c))) new_curves)"
    by (simp add: new_curves_transforms_ok)
  from a have "hd new_curves \<in> set new_curves" by simp
  with a obtain t ts where p: "parent h2 (hd new_curves) = Some (t # ts)" by blast
  with a have s: "objectSet h2 t = Some (guide_set # sets)" by simp
  from a t p s show "groom_to_curves convertToCurves groom h =
         Inr ([(guide_set, new_curves)],
              cmds_sets_add (map (\<lambda>c. hd (the (parent h2 c))) new_curves) guide_set h2)"
    unfolding groom_to_curves_def Let_def h2_def [symmetric] new_curves_def [symmetric]
    by (simp add: subscript0_def)
next
  fix d h'
  assume "groom_to_curves convertToCurves groom h = Inr (d, h')"
  from groom_to_curves_shape [OF this]
  show "(d = [] \<and> new_curves = []) \<or> (\<exists>gs. d = [(gs, new_curves)] \<and> new_curves \<noteq> [])"
    by (simp add: h2_def new_curves_def)
qed

theorem groom_to_curves_mapping_witness:
  "groom_to_curves demo_convert ''hairShape'' demo_scene =
     Inr ([(''hairSet'', [''curveShape1'', ''curveShape2''])],
          cmds_sets_add [''curve1'', ''curve2''] ''hairSet''
            (demo_convert ''hairShape'' (cmds_select ''hairShape'' demo_scene)))
   \<and> groom_to_curves idle_convert ''hairShape'' demo_scene =
       Inr ([], cmds_select ''hairShape'' demo_scene)"
  using groom_to_curves_mapping [where convertToCurves = demo_convert and groom = "''hairShape''"
      and h = demo_scene and guide_set = "''hairSet''" and sets = "[]"]
    groom_to_curves_mapping [where convertToCurves = idle_convert and groom = "''hairShape''"
      and h = demo_scene and guide_set = "''hairSet''" and sets = "[]"]
  by (simp add: demo_convert_def idle_convert_def demo_scene_def cmds_select_def)

section \<open>The guards of the orchestration\<close>

lemma get_imports_groom_total: "\<exists>ns. get_imports h yeti ''groom'' sel = Inr ns"
  by (simp add: get_imports_eq [of "''groom''" 1] import_type_dict_def)

lemma get_imports_geometry_total: "\<exists>ns. get_imports h yeti ''geometry'' sel = Inr ns"
  by (simp add: get_imports_eq [of "''geometry''" 0] import_type_dict_def)

text \<open>
  C2. In \<^verbatim>\<open>guided_grooms\<close>, an instance with at least one matching groom-import node
  whose number of geometry-import nodes is not exactly 1 is skipped: the script emits
  exactly one warning and changes nothing else, so no graph command is issued and no node
  is created for it.
\<close>

theorem guided_yeti_geometry_guard:
  assumes "find_groom_nodes h yeti groom = Inr groom_nodes" and "groom_nodes \<noteq> []"
    and "get_imports h yeti ''geometry'' None = Inr geo_nodes" and "length geo_nodes \<noteq> 1"
  shows "\<exists>h'. guided_yeti groom groom_dict yeti h = Inr h'
    \<and> h' = h\<lparr>warnings := warnings h @
          [''Yeti node: '' @ yeti @ '' has several geometry import nodes, skipping...'']\<rparr>
    \<and> calls h' = calls h \<and> graphs h' = graphs h \<and> attrs h' = attrs h"
  using assms by (simp add: guided_yeti_def cmds_warning_def)

theorem guided_yeti_geometry_guard_witness:
  "find_groom_nodes two_geo_scene ''fur'' ''hairShape'' = Inr [''hairA'']
   \<and> get_imports two_geo_scene ''fur'' ''geometry'' None
        = Inr [''geoA'', ''geoB'']
   \<and> guided_yeti ''hairShape'' [(''hairSet'', [''curveShape1''])] ''fur''
        two_geo_scene =
      Inr (two_geo_scene\<lparr>warnings := [''Yeti node: fur has several geometry import nodes, skipping...'']\<rparr>)"
proof -
  have g: "find_groom_nodes two_geo_scene ''fur'' ''hairShape''
      = Inr [''hairA'']"
    by (simp add: find_groom_nodes_def get_imports_eq [of "''groom''" 1] import_type_dict_def
        truthy_def pgYetiGraph_listNodes_def pgYetiGraph_getParamValue_def two_geo_scene_def two_geo_graph_def)
  have i: "get_imports two_geo_scene ''fur'' ''geometry'' None
      = Inr [''geoA'', ''geoB'']"
    by (simp add: get_imports_eq [of "''geometry''" 0] import_type_dict_def
        truthy_def pgYetiGraph_listNodes_def pgYetiGraph_getParamValue_def two_geo_scene_def two_geo_graph_def)
  have w: "warnings two_geo_scene = []"
    by (simp add: two_geo_scene_def demo_scene_def)
  from guided_yeti_geometry_guard [OF g _ i, of "[(''hairSet'', [''curveShape1''])]"] g i w
  show ?thesis by simp
qed

text \<open>
  C3. In \<^verbatim>\<open>guided_grooms\<close>, the groom-import nodes of an instance are queried by the
  groom's name first; the queries never raise. A non-empty answer is used as it is; an empty
  one is replaced by the answer to the query with the selection value \<^verbatim>\<open>'*'\<close>. When
  both are empty the instance is skipped: one warning is emitted and nothing else changes,
  so no node is created for it.
\<close>

theorem guided_yeti_groom_query:
  "(\<exists>ns. get_imports h yeti ''groom'' (Some groom) = Inr ns)
   \<and> (\<exists>ns. get_imports h yeti ''groom'' (Some ''*'') = Inr ns)
   \<and> (\<forall>ns. get_imports h yeti ''groom'' (Some groom) = Inr ns \<and> ns \<noteq> [] \<longrightarrow>
         find_groom_nodes h yeti groom = Inr ns)
   \<and> (get_imports h yeti ''groom'' (Some groom) = Inr [] \<longrightarrow>
         find_groom_nodes h yeti groom = get_imports h yeti ''groom'' (Some ''*''))
   \<and> (get_imports h yeti ''groom'' (Some groom) = Inr [] \<and>
       get_imports h yeti ''groom'' (Some ''*'') = Inr [] \<longrightarrow>
         (\<exists>h'. guided_yeti groom groom_dict yeti h = Inr h'
           \<and> h' = h\<lparr>warnings := warnings h @
                [''Yeti node: '' @ yeti @ '' has no grooms imported in the graph, skipping...'']\<rparr>
           \<and> calls h' = calls h \<and> graphs h' = graphs h \<and> attrs h' = attrs h))"
proof (intro conjI impI allI)
  show "\<exists>ns. get_imports h yeti ''groom'' (Some groom) = Inr ns"
    by (rule get_imports_groom_total)
  show "\<exists>ns. get_imports h yeti ''groom'' (Some ''*'') = Inr ns"
    by (rule get_imports_groom_total)
next
  fix ns
  assume "get_imports h yeti ''groom'' (Some groom) = Inr ns \<and> ns \<noteq> []"
  then show "find_groom_nodes h yeti groom = Inr ns"
    by (simp add: find_groom_nodes_def)
next
  assume "get_imports h yeti ''groom'' (Some groom) = Inr []"
  then show "find_groom_nodes h yeti groom = get_imports h yeti ''groom'' (Some ''*'')"
    by (simp add: find_groom_nodes_def)
next
  assume a: "get_imports h yeti ''groom'' (Some groom) = Inr [] \<and>
       get_imports h yeti ''groom'' (Some ''*'') = Inr []"
  obtain geo where "get_imports h yeti ''geometry'' None = Inr geo"
    using get_imports_geometry_total by blast
  with a show "\<exists>h'. guided_yeti groom groom_dict yeti h = Inr h'
           \<and> h' = h\<lparr>warnings := warnings h @
                [''Yeti node: '' @ yeti @ '' has no grooms imported in the graph, skipping...'']\<rparr>
           \<and> calls h' = calls h \<and> graphs h' = graphs h \<and> attrs h' = attrs h"
    by (simp add: guided_yeti_def find_groom_nodes_def cmds_warning_def)
qed

theorem guided_yeti_groom_query_witness:
  "find_groom_nodes demo_scene ''fur'' ''hairShape'' = Inr [''hairA'', ''hairB'']
   \<and> get_imports wildcard_scene ''fur'' ''groom''
        (Some ''hairShape'') = Inr []
   \<and> find_groom_nodes wildcard_scene ''fur'' ''hairShape''
        = Inr [''any'']
   \<and> get_imports other_groom_scene ''fur'' ''groom''
        (Some ''hairShape'') = Inr []
   \<and> get_imports other_groom_scene ''fur'' ''groom''
        (Some ''*'') = Inr []
   \<and> guided_yeti ''hairShape'' [(''hairSet'', [''curveShape1''])] ''fur''
        other_groom_scene =
      Inr (other_groom_scene\<lparr>warnings := [''Yeti node: fur has no grooms imported in the graph, skipping...'']\<rparr>)"
proof -
  have a: "get_imports demo_scene ''fur'' ''groom'' (Some ''hairShape'') = Inr [''hairA'', ''hairB'']"
    by (simp add: get_imports_eq [of "''groom''" 1] import_type_dict_def demo_scene_def
        truthy_def pgYetiGraph_listNodes_def pgYetiGraph_getParamValue_def fur_graph_def)
  have b: "get_imports wildcard_scene ''fur'' ''groom''
        (Some ''hairShape'') = Inr []"
    by (simp add: get_imports_eq [of "''groom''" 1] import_type_dict_def
        truthy_def pgYetiGraph_listNodes_def pgYetiGraph_getParamValue_def wildcard_scene_def wildcard_graph_def)
  have c: "get_imports wildcard_scene ''fur'' ''groom''
        (Some ''*'') = Inr [''any'']"
    by (simp add: get_imports_eq [of "''groom''" 1] import_type_dict_def
        truthy_def pgYetiGraph_listNodes_def pgYetiGraph_getParamValue_def wildcard_scene_def wildcard_graph_def)
  have d: "get_imports other_groom_scene ''fur'' ''groom''
        (Some ''hairShape'') = Inr []"
    by (simp add: get_imports_eq [of "''groom''" 1] import_type_dict_def
        truthy_def pgYetiGraph_listNodes_def pgYetiGraph_getParamValue_def other_groom_scene_def other_groom_graph_def)
  have e: "get_imports other_groom_scene ''fur'' ''groom''
        (Some ''*'') = Inr []"
    by (simp add: get_imports_eq [of "''groom''" 1] import_type_dict_def
        truthy_def pgYetiGraph_listNodes_def pgYetiGraph_getParamValue_def other_groom_scene_def other_groom_graph_def)
  have w: "warnings other_groom_scene = []"
    by (simp add: other_groom_scene_def demo_scene_def)
  from guided_yeti_groom_query [of demo_scene "''fur''" "''hairShape''" "[]"]
    guided_yeti_groom_query [of wildcard_scene "''fur''"
      "''hairShape''" "[]"]
    guided_yeti_groom_query [of other_groom_scene "''fur''"
      "''hairShape''" "[(''hairSet'', [''curveShape1''])]"]
    a b c d e w
  show ?thesis by simp
qed


section \<open>A groom without plugin instances\<close>

lemma lonely_conversion:
  "groom_to_curves demo_convert ''hairShape'' lonely_scene =
     Inr ([(''hairSet'', [''curveShape1'', ''curveShape2''])],
          lonely_scene\<lparr>selection := [''hairShape''],
            nurbsCurve := [''curveShape1'', ''curveShape2''],
            members := (members lonely_scene)(''hairSet'' := {''curve1'', ''curve2''})\<rparr>)"
  by (simp add: groom_to_curves_def Let_def demo_convert_def lonely_scene_def demo_scene_def
      cmds_select_def cmds_sets_add_def subscript0_def insert_commute)

text \<open>
  C4. For a selected groom with no connected plugin instance nothing should happen: no
  conversion, no change of the scene, no warning. The script does otherwise. For such a
  groom \<^verbatim>\<open>yetis_from_groom\<close> hands back no list, although its docstring promises one;
  \<^verbatim>\<open>groom_to_curves\<close> is called before the instances are looked at, and the loop over the
  absent list then raises: the body of the loop over the grooms always ends in an error,
  and in a \<^verbatim>\<open>TypeError\<close> whenever the conversion itself returned.
\<close>

theorem guided_groom_unconnected_raises:
  assumes "yetis_from_groom h groom = None"
  shows "(\<exists>e. guided_groom convertToCurves groom h = Inl e)
    \<and> (\<forall>groom_dict h1. groom_to_curves convertToCurves groom h = Inr (groom_dict, h1) \<longrightarrow>
          guided_groom convertToCurves groom h = Inl TypeError)"
proof (cases "groom_to_curves convertToCurves groom h")
  case (Inl e)
  with assms show ?thesis by (simp add: guided_groom_def)
next
  case (Inr r)
  with assms show ?thesis by (simp add: guided_groom_def split: prod.splits)
qed

text \<open>
  On the example scene the groom is selected through its transform, no instance is
  connected, the conversion leaves two new curves in their guide set, and the run ends in
  the \<^verbatim>\<open>TypeError\<close>.
\<close>

theorem guided_groom_unconnected_raises_witness:
  "yetis_from_groom lonely_scene ''hairShape'' = None
   \<and> get_sel_grooms lonely_scene = Inr [''hairShape'']
   \<and> groom_to_curves demo_convert ''hairShape'' lonely_scene =
       Inr ([(''hairSet'', [''curveShape1'', ''curveShape2''])],
            lonely_scene\<lparr>selection := [''hairShape''],
              nurbsCurve := [''curveShape1'', ''curveShape2''],
              members := (members lonely_scene)(''hairSet'' := {''curve1'', ''curve2''})\<rparr>)
   \<and> guided_groom demo_convert ''hairShape'' lonely_scene = Inl TypeError
   \<and> guided_grooms demo_convert lonely_scene = Inl TypeError"
proof -
  have y: "yetis_from_groom lonely_scene ''hairShape'' = None"
    by (simp add: yetis_from_groom_def lonely_scene_def)
  have s: "get_sel_grooms lonely_scene = Inr [''hairShape'']"
    by (simp add: get_sel_grooms_def lonely_scene_def demo_scene_def subscript0_def)
  have w: "YETI_WIN \<notin> set (windows lonely_scene)"
    by (simp add: lonely_scene_def demo_scene_def)
  from guided_groom_unconnected_raises [OF y, of demo_convert] lonely_conversion
  have g: "guided_groom demo_convert ''hairShape'' lonely_scene = Inl TypeError"
    by blast
  have r: "guided_grooms demo_convert lonely_scene = Inl TypeError"
    using s w g by (simp add: guided_grooms_def)
  from y s lonely_conversion g r show ?thesis by simp
qed

section \<open>Building the guided graph\<close>

lemma refresh_graph_graphs [simp]: "graphs (refresh_graph h) = graphs h"
  by (simp add: refresh_graph_def Let_def cmds_deleteUI_def pgYetiTearOffGraphPanel_def)

lemma refresh_graph_nodeName [simp]: "nodeName (refresh_graph h) = nodeName h"
  by (simp add: refresh_graph_def Let_def cmds_deleteUI_def pgYetiTearOffGraphPanel_def)

lemma create_node_None:
  "create_node yeti type None h = (n, h') \<Longrightarrow>
   n = nodeName h type (nodes (graphs h yeti))
   \<and> calls h' = calls h @ [Create yeti type n, Disconnect yeti 0 n]
   \<and> nodes (graphs h' yeti) = nodes (graphs h yeti) @ [(n, type)]
   \<and> nodeName h' = nodeName h \<and> attrs h' = attrs h \<and> warnings h' = warnings h"
  by (auto simp: create_node_def pgYetiGraph_create_def pgYetiGraph_disconnect_def
      truthy_def Let_def)

lemma create_node_Some:
  "create_node yeti type (Some name) h = (n, h') \<Longrightarrow>
   n = (if name = [] then nodeName h type (nodes (graphs h yeti)) else name)
   \<and> calls h' = calls h
       @ [Create yeti type (nodeName h type (nodes (graphs h yeti))),
          Disconnect yeti 0 (nodeName h type (nodes (graphs h yeti)))]
       @ (if name = [] then [] else [Rename yeti (nodeName h type (nodes (graphs h yeti))) name])
   \<and> nodes (graphs h' yeti) =
       (if name = [] then nodes (graphs h yeti) @ [(n, type)]
        else map (\<lambda>(m, t). (if m = nodeName h type (nodes (graphs h yeti)) then name else m, t))
               (nodes (graphs h yeti) @ [(nodeName h type (nodes (graphs h yeti)), type)]))
   \<and> nodeName h' = nodeName h \<and> attrs h' = attrs h \<and> warnings h' = warnings h"
  by (auto simp: create_node_def pgYetiGraph_create_def pgYetiGraph_disconnect_def
      pgYetiGraph_rename_def truthy_def Let_def split: if_splits)

lemma connect_nodes_log:
  "calls (connect_nodes yeti from_node to_node input h) =
     calls h @ [Connect yeti from_node to_node input]
   \<and> attrs (connect_nodes yeti from_node to_node input h) = attrs h
   \<and> warnings (connect_nodes yeti from_node to_node input h) = warnings h
   \<and> graphs (connect_nodes yeti from_node to_node input h) = graphs h
   \<and> nodeName (connect_nodes yeti from_node to_node input h) = nodeName h"
  by (simp add: connect_nodes_def pgYetiGraph_connect_def)

lemma set_param_log:
  "map_of param_type_dict type = Some flag \<Longrightarrow>
   \<exists>h'. set_param yeti param node val type h = Inr h'
     \<and> calls h' = calls h @ [SetParam yeti node param flag val]
     \<and> nodes (graphs h' yeti) = nodes (graphs h yeti)
     \<and> nodeName h' = nodeName h \<and> attrs h' = attrs h \<and> warnings h' = warnings h"
  by (simp add: set_param_def pgYetiGraph_setParam_def Let_def)

lemma set_guide_attrs_log:
  "attrs (set_guide_attrs guides h) =
     attrs h @ concat (map (\<lambda>curve. [(curve @ ''.weight'', 10), (curve @ ''.tipAttraction'', 1),
                               (curve @ ''.baseAttraction'', 1)]) guides)
   \<and> calls (set_guide_attrs guides h) = calls h
   \<and> warnings (set_guide_attrs guides h) = warnings h
   \<and> graphs (set_guide_attrs guides h) = graphs h
   \<and> nodeName (set_guide_attrs guides h) = nodeName h"
  by (induction guides arbitrary: h) (simp_all add: cmds_setAttr_def)

lemma wire_groom_nodes_step:
  "\<exists>h9. wire_groom_nodes yeti geo gi (gn # gns) h = wire_groom_nodes yeti geo gi gns h9
     \<and> calls h9 = calls h @
          spec_chain_calls yeti geo gi gn
            (hd (chain_names (nodeName h) (nodes (graphs h yeti)) (Suc k)))
     \<and> chain_names (nodeName h9) (nodes (graphs h9 yeti)) k =
          tl (chain_names (nodeName h) (nodes (graphs h yeti)) (Suc k))
     \<and> attrs h9 = attrs h \<and> warnings h9 = warnings h"
proof -
  obtain c h1 where c: "create_node yeti ''convert'' None h = (c, h1)" by fastforce
  define h3 where "h3 = connect_nodes yeti geo c 1 (connect_nodes yeti gn c 0 h1)"
  obtain g h4 where g: "create_node yeti ''guide'' None h3 = (g, h4)" by fastforce
  define h6 where "h6 = connect_nodes yeti gi g 1 (connect_nodes yeti c g 0 h4)"
  obtain b h7 where b: "create_node yeti ''blend'' None h6 = (b, h7)" by fastforce
  define h9 where "h9 = connect_nodes yeti g b 1 (connect_nodes yeti c b 0 h7)"
  have w: "wire_groom_nodes yeti geo gi (gn # gns) h = wire_groom_nodes yeti geo gi gns h9"
    using c g b by (simp add: h3_def h6_def h9_def)
  note s1 = create_node_None [OF c]
  have s3: "calls h3 = calls h1 @ [Connect yeti gn c 0, Connect yeti geo c 1]"
    "graphs h3 = graphs h1" "nodeName h3 = nodeName h1"
    "attrs h3 = attrs h1" "warnings h3 = warnings h1"
    by (simp_all add: h3_def connect_nodes_log)
  note s4 = create_node_None [OF g]
  have s6: "calls h6 = calls h4 @ [Connect yeti c g 0, Connect yeti gi g 1]"
    "graphs h6 = graphs h4" "nodeName h6 = nodeName h4"
    "attrs h6 = attrs h4" "warnings h6 = warnings h4"
    by (simp_all add: h6_def connect_nodes_log)
  note s7 = create_node_None [OF b]
  have s9: "calls h9 = calls h7 @ [Connect yeti c b 0, Connect yeti g b 1]"
    "graphs h9 = graphs h7" "nodeName h9 = nodeName h7"
    "attrs h9 = attrs h7" "warnings h9 = warnings h7"
    by (simp_all add: h9_def connect_nodes_log)
  have nm: "nodeName h9 = nodeName h" "attrs h9 = attrs h" "warnings h9 = warnings h"
    using s1 s3 s4 s6 s7 s9 by simp_all
  have cn: "c = nodeName h ''convert'' (nodes (graphs h yeti))" using s1 by simp
  have n3: "nodes (graphs h3 yeti) = nodes (graphs h yeti) @ [(c, ''convert'')]"
    using s1 s3 by simp
  have gn: "g = nodeName h ''guide'' (nodes (graphs h3 yeti))" using s1 s3 s4 by simp
  have n6: "nodes (graphs h6 yeti) = nodes (graphs h3 yeti) @ [(g, ''guide'')]"
    using s4 s6 by simp
  have bn: "b = nodeName h ''blend'' (nodes (graphs h6 yeti))" using s1 s3 s4 s6 s7 by simp
  have n9: "nodes (graphs h9 yeti) = nodes (graphs h6 yeti) @ [(b, ''blend'')]"
    using s7 s9 by simp
  have ch: "chain_names (nodeName h) (nodes (graphs h yeti)) (Suc k) =
      (c, g, b) # chain_names (nodeName h9) (nodes (graphs h9 yeti)) k"
    using cn gn bn n3 n6 n9 nm by (simp add: Let_def)
  have l: "calls h9 = calls h @ spec_chain_calls yeti geo gi gn (c, g, b)"
    using s1 s3 s4 s6 s7 s9 by simp
  from w l ch nm show ?thesis by auto
qed

lemma wire_groom_nodes_log:
  "calls (wire_groom_nodes yeti geo gi gns h) =
     calls h @ concat (map2 (spec_chain_calls yeti geo gi) gns
       (chain_names (nodeName h) (nodes (graphs h yeti)) (length gns)))
   \<and> attrs (wire_groom_nodes yeti geo gi gns h) = attrs h
   \<and> warnings (wire_groom_nodes yeti geo gi gns h) = warnings h"
proof (induction gns arbitrary: h)
  case Nil
  then show ?case by simp
next
  case (Cons gn gns)
  define cs where "cs = chain_names (nodeName h) (nodes (graphs h yeti)) (Suc (length gns))"
  from wire_groom_nodes_step [of yeti geo gi gn gns h "length gns"]
  obtain h9 where
    s: "wire_groom_nodes yeti geo gi (gn # gns) h = wire_groom_nodes yeti geo gi gns h9"
    and l: "calls h9 = calls h @ spec_chain_calls yeti geo gi gn (hd cs)"
    and c: "chain_names (nodeName h9) (nodes (graphs h9 yeti)) (length gns) = tl cs"
    and a: "attrs h9 = attrs h" "warnings h9 = warnings h"
    unfolding cs_def by blast
  have e: "hd cs # tl cs = cs"
    by (simp add: cs_def Let_def)
  have "calls (wire_groom_nodes yeti geo gi (gn # gns) h) =
     calls h9 @ concat (map2 (spec_chain_calls yeti geo gi) gns (tl cs))"
    using s c Cons.IH [of h9] by simp
  also have "\<dots> = calls h @ concat (map2 (spec_chain_calls yeti geo gi) (gn # gns)
       (hd cs # tl cs))"
    using l by simp
  also have "\<dots> = calls h @ concat (map2 (spec_chain_calls yeti geo gi) (gn # gns) cs)"
    by (simp only: e)
  finally have "calls (wire_groom_nodes yeti geo gi (gn # gns) h) =
     calls h @ concat (map2 (spec_chain_calls yeti geo gi) (gn # gns)
       (chain_names (nodeName h) (nodes (graphs h yeti)) (length (gn # gns))))"
    unfolding cs_def by (simp del: chain_names.simps)
  moreover have "attrs (wire_groom_nodes yeti geo gi (gn # gns) h) = attrs h"
    "warnings (wire_groom_nodes yeti geo gi (gn # gns) h) = warnings h"
    using s a Cons.IH [of h9] by simp_all
  ultimately show ?case by blast
qed

lemma chain_names_length: "length (chain_names name ns k) = k"
  by (induction k arbitrary: ns) (simp_all add: Let_def)

lemma import_guides_log:
  "\<exists>h6. import_guides ((guide_set, guides) # rest) yeti h =
       Inr (if guide_set = [] then nodeName h ''import'' (nodes (graphs h yeti)) else guide_set, h6)
     \<and> calls h6 = calls h @
         spec_guide_import_calls yeti guide_set (nodeName h ''import'' (nodes (graphs h yeti)))
     \<and> nodes (graphs h6 yeti) =
         (if guide_set = []
          then nodes (graphs h yeti) @ [(nodeName h ''import'' (nodes (graphs h yeti)), ''import'')]
          else map (\<lambda>(m, t).
                 (if m = nodeName h ''import'' (nodes (graphs h yeti)) then guide_set else m, t))
               (nodes (graphs h yeti)
                @ [(nodeName h ''import'' (nodes (graphs h yeti)), ''import'')]))
     \<and> nodeName h6 = nodeName h
     \<and> attrs h6 = attrs h @ spec_guide_attrs guide_set guides
     \<and> warnings h6 = warnings h"
proof -
  define node where "node = nodeName h ''import'' (nodes (graphs h yeti))"
  define h1 where "h1 = pgYetiAddGuideSet guide_set yeti h"
  have s1: "calls h1 = calls h @ [AddGuideSet guide_set yeti]" "graphs h1 = graphs h"
    "nodeName h1 = nodeName h" "attrs h1 = attrs h" "warnings h1 = warnings h"
    by (simp_all add: h1_def pgYetiAddGuideSet_def)
  obtain gi h2 where c: "create_node yeti ''import'' (Some guide_set) h1 = (gi, h2)" by fastforce
  note s2 = create_node_Some [OF c]
  have gi: "gi = (if guide_set = [] then node else guide_set)"
    using s2 s1 by (simp add: node_def)
  from set_param_log [of "''scalar''" "''setParamValueScalar''" yeti "''type''" gi "Num 2" h2]
  obtain h3 where
    p3: "set_param yeti ''type'' gi (Num 2) ''scalar'' h2 = Inr h3"
    and s3: "calls h3 = calls h2 @ [SetParam yeti gi ''type'' ''setParamValueScalar'' (Num 2)]"
      "nodes (graphs h3 yeti) = nodes (graphs h2 yeti)" "nodeName h3 = nodeName h2"
      "attrs h3 = attrs h2" "warnings h3 = warnings h2"
    by (auto simp: param_type_dict_def)
  from set_param_log [of "''string''" "''setParamValueString ''" yeti "''geometry''" gi
      "Str guide_set" h3]
  obtain h4 where
    p4: "set_param yeti ''geometry'' gi (Str guide_set) ''string'' h3 = Inr h4"
    and s4: "calls h4 = calls h3 @
        [SetParam yeti gi ''geometry'' ''setParamValueString '' (Str guide_set)]"
      "nodes (graphs h4 yeti) = nodes (graphs h3 yeti)" "nodeName h4 = nodeName h3"
      "attrs h4 = attrs h3" "warnings h4 = warnings h3"
    by (auto simp: param_type_dict_def)
  define h6 where "h6 =
    set_guide_attrs guides (cmds_setAttr (guide_set @ ''.maxNumberOfGuideInfluences'') 1 h4)"
  have s6: "calls h6 = calls h4" "warnings h6 = warnings h4" "graphs h6 = graphs h4"
    "nodeName h6 = nodeName h4" "attrs h6 = attrs h4 @ spec_guide_attrs guide_set guides"
    by (simp_all add: h6_def set_guide_attrs_log cmds_setAttr_def spec_guide_attrs_def)
  have r: "import_guides ((guide_set, guides) # rest) yeti h = Inr (gi, h6)"
    using c p3 p4 by (simp add: import_guides_def h1_def h6_def)
  have l: "calls h6 = calls h @ spec_guide_import_calls yeti guide_set node"
    using s1 s2 s3 s4 s6 gi by (simp add: spec_guide_import_calls_def node_def)
  have n: "nodes (graphs h6 yeti) =
         (if guide_set = [] then nodes (graphs h yeti) @ [(node, ''import'')]
          else map (\<lambda>(m, t). (if m = node then guide_set else m, t))
               (nodes (graphs h yeti) @ [(node, ''import'')]))"
    using s1 s2 s3 s4 s6 by (simp add: node_def)
  have a: "nodeName h6 = nodeName h" "attrs h6 = attrs h @ spec_guide_attrs guide_set guides"
    "warnings h6 = warnings h"
    using s1 s2 s3 s4 s6 by simp_all
  from r gi l n a show ?thesis unfolding node_def by blast
qed


lemma build_guided_graph_log:
  "\<exists>h'. build_guided_graph ((guide_set, guides) # rest) yeti geo gns h = Inr h'
     \<and> calls h' = calls h
         @ spec_guide_import_calls yeti guide_set (nodeName h ''import'' (nodes (graphs h yeti)))
         @ concat (map2
             (spec_chain_calls yeti geo
               (if guide_set = [] then nodeName h ''import'' (nodes (graphs h yeti))
                else guide_set))
             gns
             (chain_names (nodeName h)
               (imported_nodes guide_set (nodeName h ''import'' (nodes (graphs h yeti)))
                  (nodes (graphs h yeti)))
               (length gns)))
     \<and> attrs h' = attrs h @ spec_guide_attrs guide_set guides
     \<and> warnings h' = warnings h"
proof -
  from import_guides_log [of guide_set guides rest yeti h] obtain h6 where
    i: "import_guides ((guide_set, guides) # rest) yeti h =
       Inr (if guide_set = [] then nodeName h ''import'' (nodes (graphs h yeti)) else guide_set, h6)"
    and l: "calls h6 = calls h @
         spec_guide_import_calls yeti guide_set (nodeName h ''import'' (nodes (graphs h yeti)))"
    and n: "nodes (graphs h6 yeti) =
         imported_nodes guide_set (nodeName h ''import'' (nodes (graphs h yeti)))
           (nodes (graphs h yeti))"
    and a: "nodeName h6 = nodeName h" "attrs h6 = attrs h @ spec_guide_attrs guide_set guides"
      "warnings h6 = warnings h"
    unfolding imported_nodes_def by blast
  define gi where
    "gi = (if guide_set = [] then nodeName h ''import'' (nodes (graphs h yeti)) else guide_set)"
  have b: "build_guided_graph ((guide_set, guides) # rest) yeti geo gns h =
      Inr (wire_groom_nodes yeti geo gi gns h6)"
    using i by (simp add: build_guided_graph_def gi_def)
  from wire_groom_nodes_log [of yeti geo gi gns h6] l n a b
  show ?thesis unfolding gi_def by simp
qed

lemma guided_yeti_passes:
  "get_imports h yeti ''geometry'' None = Inr [geo_node] \<Longrightarrow>
   find_groom_nodes h yeti groom = Inr groom_nodes \<Longrightarrow> groom_nodes \<noteq> [] \<Longrightarrow>
   guided_yeti groom groom_dict yeti h =
     build_guided_graph groom_dict yeti geo_node groom_nodes h"
  by (simp add: guided_yeti_def)

text \<open>
  C1, as amended. In \<^verbatim>\<open>guided_grooms\<close>, for an instance that passes both guards (exactly
  one geometry-import node, at least one matching groom-import node) and a conversion that
  produced a guide set, the instance is processed without error and the graph commands issued
  for it are exactly: the guide-set registration and the creation of one guide-import node,
  then, for each of the \<open>n\<close> groom-import nodes in order, the creation of one convert, one
  guide and one blend node wired as groom-import and geometry-import into convert ports 0
  and 1, convert and the guide-import into guide ports 0 and 1, convert and guide into blend
  ports 0 and 1. The names of the new nodes are those the plugin hands out.
\<close>

theorem guided_yeti_wiring:
  fixes h :: host and yeti guide_set :: string and groom_nodes :: "string list"
  defines "node \<equiv> nodeName h ''import'' (nodes (graphs h yeti))"
  defines "guide_import \<equiv> (if guide_set = [] then node else guide_set)"
  defines "chain \<equiv> chain_names (nodeName h)
      (imported_nodes guide_set node (nodes (graphs h yeti))) (length groom_nodes)"
  assumes "get_imports h yeti ''geometry'' None = Inr [geo_node]"
    and "find_groom_nodes h yeti groom = Inr groom_nodes" and "groom_nodes \<noteq> []"
    and "groom_dict = (guide_set, guides) # rest"
  shows "length chain = length groom_nodes
    \<and> (\<exists>h'. guided_yeti groom groom_dict yeti h = Inr h'
          \<and> calls h' = calls h @ spec_guide_import_calls yeti guide_set node
              @ concat (map2 (spec_chain_calls yeti geo_node guide_import) groom_nodes chain))"
proof
  show "length chain = length groom_nodes"
    by (simp add: chain_def chain_names_length)
next
  have "guided_yeti groom groom_dict yeti h =
     build_guided_graph ((guide_set, guides) # rest) yeti geo_node groom_nodes h"
    using assms(4-7) by (simp add: guided_yeti_passes)
  with build_guided_graph_log [of guide_set guides rest yeti geo_node groom_nodes h]
  show "\<exists>h'. guided_yeti groom groom_dict yeti h = Inr h'
          \<and> calls h' = calls h @ spec_guide_import_calls yeti guide_set node
              @ concat (map2 (spec_chain_calls yeti geo_node guide_import) groom_nodes chain)"
    unfolding node_def guide_import_def chain_def by auto
qed

text \<open>
  C6, as amended. In \<^verbatim>\<open>guided_grooms\<close>, for an instance that passes both guards and a
  conversion that produced at least one curve, the mapping returned by the conversion has
  the single key \<open>guide_set\<close> with the new curves as its value, and the attribute calls made
  for the instance are exactly: \<^verbatim>\<open>maxNumberOfGuideInfluences\<close> = 1 on the guide set, then
  \<^verbatim>\<open>weight\<close> = 10, \<^verbatim>\<open>tipAttraction\<close> = 1 and \<^verbatim>\<open>baseAttraction\<close> = 1 on every
  curve the conversion produced.
\<close>

theorem guided_yeti_guide_attrs:
  fixes convertToCurves :: "string \<Rightarrow> host \<Rightarrow> host" and groom :: string and scene :: host
  defines "new_curves \<equiv> filter (\<lambda>c. c \<notin> set (nurbsCurve scene))
      (nurbsCurve (convertToCurves groom (cmds_select groom scene)))"
  assumes "groom_to_curves convertToCurves groom scene = Inr (groom_dict, converted)"
    and "groom_dict \<noteq> []"
    and "get_imports h yeti ''geometry'' None = Inr [geo_node]"
    and "find_groom_nodes h yeti groom = Inr groom_nodes" and "groom_nodes \<noteq> []"
  shows "\<exists>h' guide_set. groom_dict = [(guide_set, new_curves)]
    \<and> guided_yeti groom groom_dict yeti h = Inr h'
    \<and> attrs h' = attrs h @ spec_guide_attrs guide_set new_curves"
proof -
  from groom_to_curves_shape [OF assms(2)] assms(3)
  obtain guide_set where d: "groom_dict = [(guide_set, new_curves)]"
    unfolding new_curves_def by blast
  have "guided_yeti groom groom_dict yeti h =
     build_guided_graph ((guide_set, new_curves) # []) yeti geo_node groom_nodes h"
    using assms(4-6) d by (simp add: guided_yeti_passes)
  with build_guided_graph_log [of guide_set new_curves "[]" yeti geo_node groom_nodes h] d
  show ?thesis by auto
qed


subsection \<open>The example scene\<close>

lemma demo_conversion:
  "groom_to_curves demo_convert ''hairShape'' demo_scene =
     Inr ([(''hairSet'', [''curveShape1'', ''curveShape2''])], converted_scene)"
  by (simp add: groom_to_curves_def Let_def demo_convert_def demo_scene_def converted_scene_def
      cmds_select_def subscript0_def)

lemma converted_scene_fields:
  "graphs converted_scene = graphs demo_scene" "nodeName converted_scene = nodeName demo_scene"
  "calls converted_scene = []" "attrs converted_scene = []"
  "nurbsCurve converted_scene = [''curveShape1'', ''curveShape2'']"
  by (simp_all add: converted_scene_def cmds_sets_add_def demo_convert_def cmds_select_def
      demo_scene_def)

lemma demo_selected_fields:
  "graphs (cmds_select obj demo_scene) = graphs demo_scene"
  by (simp add: cmds_select_def)

lemma fur_imports:
  "graphs h = graphs demo_scene \<Longrightarrow>
   get_imports h ''fur'' ''geometry'' None = Inr [''geo'']
   \<and> find_groom_nodes h ''fur'' ''hairShape'' = Inr [''hairA'', ''hairB'']"
  by (simp add: find_groom_nodes_def get_imports_eq [of "''groom''" 1]
      get_imports_eq [of "''geometry''" 0] import_type_dict_def demo_scene_def
      truthy_def pgYetiGraph_listNodes_def pgYetiGraph_getParamValue_def fur_graph_def)

lemma demo_run:
  "guided_grooms convertToCurves demo_scene =
     (case groom_to_curves convertToCurves ''hairShape'' demo_scene of
        Inl e \<Rightarrow> Inl e
      | Inr (groom_dict, h1) \<Rightarrow> guided_yeti ''hairShape'' groom_dict ''fur'' h1)"
proof -
  have w: "YETI_WIN \<notin> set (windows demo_scene)" by (simp add: demo_scene_def)
  have s: "get_sel_grooms demo_scene = Inr [''hairShape'']"
    by (simp add: get_sel_grooms_def demo_scene_def subscript0_def)
  have y: "yetis_from_groom demo_scene ''hairShape'' = Some [''fur'']"
    by (simp add: yetis_from_groom_def demo_scene_def)
  show ?thesis using w s y
    by (simp add: guided_grooms_def guided_groom_def split: sum.splits prod.splits)
qed

theorem guided_yeti_wiring_witness:
  "get_imports converted_scene ''fur'' ''geometry'' None = Inr [''geo'']
   \<and> find_groom_nodes converted_scene ''fur'' ''hairShape'' = Inr [''hairA'', ''hairB'']
   \<and> guided_grooms demo_convert demo_scene =
       guided_yeti ''hairShape'' [(''hairSet'', [''curveShape1'', ''curveShape2''])] ''fur''
         converted_scene
   \<and> map_sum id calls (guided_grooms demo_convert demo_scene) =
   Inr [AddGuideSet ''hairSet'' ''fur'',
        Create ''fur'' ''import'' ''importIIII'', Disconnect ''fur'' 0 ''importIIII'',
        Rename ''fur'' ''importIIII'' ''hairSet'',
        SetParam ''fur'' ''hairSet'' ''type'' ''setParamValueScalar'' (Num 2),
        SetParam ''fur'' ''hairSet'' ''geometry'' ''setParamValueString '' (Str ''hairSet''),
        Create ''fur'' ''convert'' ''convertI'', Disconnect ''fur'' 0 ''convertI'',
        Connect ''fur'' ''hairA'' ''convertI'' 0, Connect ''fur'' ''geo'' ''convertI'' 1,
        Create ''fur'' ''guide'' ''guideI'', Disconnect ''fur'' 0 ''guideI'',
        Connect ''fur'' ''convertI'' ''guideI'' 0, Connect ''fur'' ''hairSet'' ''guideI'' 1,
        Create ''fur'' ''blend'' ''blendI'', Disconnect ''fur'' 0 ''blendI'',
        Connect ''fur'' ''convertI'' ''blendI'' 0, Connect ''fur'' ''guideI'' ''blendI'' 1,
        Create ''fur'' ''convert'' ''convertII'', Disconnect ''fur'' 0 ''convertII'',
        Connect ''fur'' ''hairB'' ''convertII'' 0, Connect ''fur'' ''geo'' ''convertII'' 1,
        Create ''fur'' ''guide'' ''guideII'', Disconnect ''fur'' 0 ''guideII'',
        Connect ''fur'' ''convertII'' ''guideII'' 0, Connect ''fur'' ''hairSet'' ''guideII'' 1,
        Create ''fur'' ''blend'' ''blendII'', Disconnect ''fur'' 0 ''blendII'',
        Connect ''fur'' ''convertII'' ''blendII'' 0, Connect ''fur'' ''guideII'' ''blendII'' 1]"
proof -
  note g = fur_imports [OF converted_scene_fields(1)]
  have r: "guided_grooms demo_convert demo_scene =
       guided_yeti ''hairShape'' [(''hairSet'', [''curveShape1'', ''curveShape2''])] ''fur''
         converted_scene"
    by (simp add: demo_run demo_conversion)
  from guided_yeti_wiring [where h = converted_scene and yeti = "''fur''"
      and groom = "''hairShape''" and geo_node = "''geo''"
      and groom_nodes = "[''hairA'', ''hairB'']" and guide_set = "''hairSet''"
      and guides = "[''curveShape1'', ''curveShape2'']" and rest = "[]"
      and groom_dict = "[(''hairSet'', [''curveShape1'', ''curveShape2''])]"]
    g
  obtain h' where
    "guided_yeti ''hairShape'' [(''hairSet'', [''curveShape1'', ''curveShape2''])] ''fur''
       converted_scene = Inr h'"
    and "calls h' = calls converted_scene
       @ spec_guide_import_calls ''fur'' ''hairSet''
           (nodeName converted_scene ''import'' (nodes (graphs converted_scene ''fur'')))
       @ concat (map2 (spec_chain_calls ''fur'' ''geo'' ''hairSet'') [''hairA'', ''hairB'']
           (chain_names (nodeName converted_scene)
             (imported_nodes ''hairSet''
                (nodeName converted_scene ''import'' (nodes (graphs converted_scene ''fur'')))
                (nodes (graphs converted_scene ''fur'')))
             (length [''hairA'', ''hairB''])))"
    by auto
  then have "map_sum id calls (guided_yeti ''hairShape''
      [(''hairSet'', [''curveShape1'', ''curveShape2''])] ''fur'' converted_scene) =
   Inr [AddGuideSet ''hairSet'' ''fur'',
        Create ''fur'' ''import'' ''importIIII'', Disconnect ''fur'' 0 ''importIIII'',
        Rename ''fur'' ''importIIII'' ''hairSet'',
        SetParam ''fur'' ''hairSet'' ''type'' ''setParamValueScalar'' (Num 2),
        SetParam ''fur'' ''hairSet'' ''geometry'' ''setParamValueString '' (Str ''hairSet''),
        Create ''fur'' ''convert'' ''convertI'', Disconnect ''fur'' 0 ''convertI'',
        Connect ''fur'' ''hairA'' ''convertI'' 0, Connect ''fur'' ''geo'' ''convertI'' 1,
        Create ''fur'' ''guide'' ''guideI'', Disconnect ''fur'' 0 ''guideI'',
        Connect ''fur'' ''convertI'' ''guideI'' 0, Connect ''fur'' ''hairSet'' ''guideI'' 1,
        Create ''fur'' ''blend'' ''blendI'', Disconnect ''fur'' 0 ''blendI'',
        Connect ''fur'' ''convertI'' ''blendI'' 0, Connect ''fur'' ''guideI'' ''blendI'' 1,
        Create ''fur'' ''convert'' ''convertII'', Disconnect ''fur'' 0 ''convertII'',
        Connect ''fur'' ''hairB'' ''convertII'' 0, Connect ''fur'' ''geo'' ''convertII'' 1,
        Create ''fur'' ''guide'' ''guideII'', Disconnect ''fur'' 0 ''guideII'',
        Connect ''fur'' ''convertII'' ''guideII'' 0, Connect ''fur'' ''hairSet'' ''guideII'' 1,
        Create ''fur'' ''blend'' ''blendII'', Disconnect ''fur'' 0 ''blendII'',
        Connect ''fur'' ''convertII'' ''blendII'' 0, Connect ''fur'' ''guideII'' ''blendII'' 1]"
    by (simp add: converted_scene_fields demo_scene_def fur_graph_def
        spec_guide_import_calls_def imported_nodes_def Let_def)
  with g r show ?thesis by simp
qed

theorem guided_yeti_guide_attrs_witness:
  "groom_to_curves demo_convert ''hairShape'' demo_scene =
     Inr ([(''hairSet'', [''curveShape1'', ''curveShape2''])], converted_scene)
   \<and> get_imports converted_scene ''fur'' ''geometry'' None = Inr [''geo'']
   \<and> find_groom_nodes converted_scene ''fur'' ''hairShape'' = Inr [''hairA'', ''hairB'']
   \<and> map_sum id attrs (guided_yeti ''hairShape''
        [(''hairSet'', [''curveShape1'', ''curveShape2''])] ''fur'' converted_scene) =
      Inr [(''hairSet.maxNumberOfGuideInfluences'', 1),
           (''curveShape1.weight'', 10), (''curveShape1.tipAttraction'', 1),
           (''curveShape1.baseAttraction'', 1),
           (''curveShape2.weight'', 10), (''curveShape2.tipAttraction'', 1),
           (''curveShape2.baseAttraction'', 1)]"
proof -
  note g = fur_imports [OF converted_scene_fields(1)]
  from guided_yeti_guide_attrs [OF demo_conversion _ conjunct1 [OF g] conjunct2 [OF g]]
  obtain h' guide_set where
    "[(''hairSet'', [''curveShape1'', ''curveShape2''])] =
       [(guide_set, filter (\<lambda>c. c \<notin> set (nurbsCurve demo_scene))
          (nurbsCurve (demo_convert ''hairShape'' (cmds_select ''hairShape'' demo_scene))))]"
    and "guided_yeti ''hairShape'' [(''hairSet'', [''curveShape1'', ''curveShape2''])] ''fur''
       converted_scene = Inr h'"
    and "attrs h' = attrs converted_scene @ spec_guide_attrs guide_set
        (filter (\<lambda>c. c \<notin> set (nurbsCurve demo_scene))
          (nurbsCurve (demo_convert ''hairShape'' (cmds_select ''hairShape'' demo_scene))))"
    by auto
  then have "map_sum id attrs (guided_yeti ''hairShape''
        [(''hairSet'', [''curveShape1'', ''curveShape2''])] ''fur'' converted_scene) =
      Inr [(''hairSet.maxNumberOfGuideInfluences'', 1),
           (''curveShape1.weight'', 10), (''curveShape1.tipAttraction'', 1),
           (''curveShape1.baseAttraction'', 1),
           (''curveShape2.weight'', 10), (''curveShape2.tipAttraction'', 1),
           (''curveShape2.baseAttraction'', 1)]"
    by (auto simp: converted_scene_fields spec_guide_attrs_def demo_convert_def cmds_select_def
        demo_scene_def)
  with g demo_conversion show ?thesis by simp
qed

lemma idle_conversion:
  "groom_to_curves idle_convert ''hairShape'' demo_scene =
     Inr ([], cmds_select ''hairShape'' demo_scene)"
  by (simp add: groom_to_curves_def Let_def idle_convert_def demo_scene_def cmds_select_def)

lemma no_guide_set_raises:
  "graphs h = graphs demo_scene \<Longrightarrow> guided_yeti ''hairShape'' [] ''fur'' h = Inl IndexError"
  using fur_imports [of h]
  by (simp add: guided_yeti_def build_guided_graph_def import_guides_def)

text \<open>
  The wiring claim as first stated fails: on the example scene the instance passes both
  guards, yet with a conversion that produces no curve the run ends in an
  \<^verbatim>\<open>IndexError\<close> at \<^verbatim>\<open>groom_dict.keys()[0]\<close> before any node is created.
\<close>

theorem guided_grooms_raises_without_curves:
  "get_imports demo_scene ''fur'' ''geometry'' None = Inr [''geo'']
   \<and> find_groom_nodes demo_scene ''fur'' ''hairShape'' = Inr [''hairA'', ''hairB'']
   \<and> guided_grooms idle_convert demo_scene = Inl IndexError"
  using fur_imports [of demo_scene] no_guide_set_raises [OF demo_selected_fields]
  by (simp add: demo_run idle_conversion)

text \<open>
  The attribute claim as first stated fails likewise: the conversion returns the empty
  mapping, the instance passes both guards in the scene the conversion left, and the loop
  body raises \<^verbatim>\<open>IndexError\<close> before any attribute is set.
\<close>

theorem guided_groom_sets_no_attrs_without_curves:
  "groom_to_curves idle_convert ''hairShape'' demo_scene =
     Inr ([], cmds_select ''hairShape'' demo_scene)
   \<and> get_imports (cmds_select ''hairShape'' demo_scene) ''fur'' ''geometry'' None = Inr [''geo'']
   \<and> find_groom_nodes (cmds_select ''hairShape'' demo_scene) ''fur'' ''hairShape''
       = Inr [''hairA'', ''hairB'']
   \<and> guided_yeti ''hairShape'' [] ''fur'' (cmds_select ''hairShape'' demo_scene) = Inl IndexError
   \<and> guided_groom idle_convert ''hairShape'' demo_scene = Inl IndexError"
proof -
  have y: "yetis_from_groom demo_scene ''hairShape'' = Some [''fur'']"
    by (simp add: yetis_from_groom_def demo_scene_def)
  note r = no_guide_set_raises [OF demo_selected_fields, of "''hairShape''"]
  have "guided_groom idle_convert ''hairShape'' demo_scene = Inl IndexError"
    using y r by (simp add: guided_groom_def idle_conversion)
  with r fur_imports [OF demo_selected_fields, of "''hairShape''"] idle_conversion
  show ?thesis by simp
qed

end
